theory Spec2Isabelle
  imports Complex_Main
begin

section \<open>The weather service of gohome (services/weather/main.go)\<close>

text \<open>
  The service keeps four package-level \<^verbatim>\<open>float64\<close> variables, inspects every event of
  the rain, temperature and wind devices (\<^verbatim>\<open>checkEvent\<close>) and once a day renders a
  digest of the last 24 hours (\<^verbatim>\<open>weatherStats\<close>).

  Conventions of the embedding:
  \<^item> a \<^verbatim>\<open>float64\<close> is a \<^typ>\<open>real\<close>. Comparisons and the decimal rendering of a finite
    \<^verbatim>\<open>float64\<close> are exact functions of its value, so they are modelled as they run; the
    arithmetic of the wind average (\<^verbatim>\<open>avgWind*39/40 + speed*1/40\<close>, \<^verbatim>\<open>avgWind*2.237\<close>)
    is modelled without its rounding, and NaN, the infinities and the negative zero
    have no counterpart;
  \<^item> a run-time panic of Go (a failed type assertion, an index out of range) is the
    \<open>Inl\<close> branch of a result; nothing in the package recovers from a panic;
  \<^item> the package-level variables are a record passed in and returned;
  \<^item> \<^verbatim>\<open>tweet\<close> logs and hands the message to \<^verbatim>\<open>services.SendAlert\<close>; the model
    returns the list of the alerts sent, in order.
\<close>

subsection \<open>Threshold tables\<close>

record td =
  temp :: real
  noun :: string

definition lowTemperatures :: "td list" where
  "lowTemperatures =
    [\<lparr>temp = -5, noun = ''a very cold''\<rparr>,
     \<lparr>temp = -2, noun = ''a rather cold''\<rparr>,
     \<lparr>temp = 0, noun = ''a freezing''\<rparr>,
     \<lparr>temp = 2, noun = ''a frosty''\<rparr>,
     \<lparr>temp = 5, noun = ''a cold''\<rparr>,
     \<lparr>temp = 7, noun = ''a moderate''\<rparr>,
     \<lparr>temp = 10, noun = ''a pleasant''\<rparr>,
     \<lparr>temp = 15, noun = ''a hot''\<rparr>,
     \<lparr>temp = 25, noun = ''a scorching''\<rparr>]"

definition highTemperatures :: "td list" where
  "highTemperatures =
    [\<lparr>temp = 1, noun = ''a very cold''\<rparr>,
     \<lparr>temp = 4, noun = ''a rather cold''\<rparr>,
     \<lparr>temp = 6, noun = ''a piercing''\<rparr>,
     \<lparr>temp = 8, noun = ''a chilly''\<rparr>,
     \<lparr>temp = 11, noun = ''a cool''\<rparr>,
     \<lparr>temp = 15, noun = ''a moderate''\<rparr>,
     \<lparr>temp = 18, noun = ''a reasonably warm''\<rparr>,
     \<lparr>temp = 21, noun = ''a hot''\<rparr>,
     \<lparr>temp = 31, noun = ''a scorching''\<rparr>,
     \<lparr>temp = 36, noun = ''a sweltering''\<rparr>]"

text \<open>\<^verbatim>\<open>getTempDesc\<close>: the range loop returns at the first entry above \<open>t\<close>.\<close>

fun getTempDesc :: "real \<Rightarrow> td list \<Rightarrow> string" where
  "getTempDesc t [] = ''''"
| "getTempDesc t (e # temps) = (if t < temp e then noun e else getTempDesc t temps)"

subsection \<open>Rendering numbers (Go's \<^verbatim>\<open>fmt\<close> verbs \<^verbatim>\<open>%.1f\<close> and \<^verbatim>\<open>%.2f\<close>)\<close>

text \<open>
  \<^verbatim>\<open>%.Nf\<close> prints the value rounded to \<open>N\<close> decimals, to the nearest and to the even
  digit on a tie, with a minus sign for a negative value, at least one digit before the
  point and exactly \<open>N\<close> after it.
\<close>

function dec_digits :: "nat \<Rightarrow> string" where
  "dec_digits n =
     (if n < 10 then [''0123456789'' ! n]
      else dec_digits (n div 10) @ [''0123456789'' ! (n mod 10)])"
  by pat_completeness auto
termination
  by (relation "measure (\<lambda>n. n)") auto

declare dec_digits.simps [simp del]

definition round_half_even :: "real \<Rightarrow> int" where
  "round_half_even x =
     (let f = \<lfloor>x\<rfloor>; d = x - of_int f
      in if d < 1 / 2 then f
         else if 1 / 2 < d then f + 1
         else if even f then f else f + 1)"

definition fmt_f :: "nat \<Rightarrow> real \<Rightarrow> string" where
  "fmt_f p x =
     (let n = nat (round_half_even (\<bar>x\<bar> * 10 ^ p));
          ds = dec_digits (n mod 10 ^ p)
      in (if x < 0 then ''-'' else '''')
         @ dec_digits (n div 10 ^ p)
         @ (if p = 0 then ''''
            else ''.'' @ replicate (p - length ds) (CHR ''0'') @ ds))"

subsection \<open>Events, configuration, alerts\<close>

text \<open>
  \<^verbatim>\<open>ev.Fields\<close> is a \<^verbatim>\<open>map[string]interface{}\<close> filled from JSON: a field is absent,
  null, a boolean, a number (always a \<^verbatim>\<open>float64\<close>) or a string. Arrays and objects
  as field values are left out. \<^verbatim>\<open>services.Config.LookupDeviceName(ev)\<close> is computed
  outside this package: the event carries the resolved name.
\<close>

datatype field = FNil | FBool bool | FFloat real | FString string

record event =
  deviceName :: string
  Fields :: "string \<rightharpoonup> field"

text \<open>The part of \<^verbatim>\<open>services.Config\<close> the package reads.\<close>

record config =
  Rain :: string
  Temp :: string
  Wind :: string
  Windy :: real

text \<open>One call of \<^verbatim>\<open>services.SendAlert(message, "twitter", subtopic, interval)\<close>.\<close>

record alert =
  message :: string
  target :: string
  subtopic :: string
  interval :: int

definition tweet :: "string \<Rightarrow> string \<Rightarrow> int \<Rightarrow> alert" where
  "tweet msg sub ival = \<lparr>message = msg, target = ''twitter'', subtopic = sub, interval = ival\<rparr>"

datatype panic = InterfaceConversion | IndexOutOfRange

text \<open>\<^verbatim>\<open>v.(float64)\<close> panics unless the value is a float64; a missing key reads as nil.\<close>

definition assert_float64 :: "field option \<Rightarrow> panic + real" where
  "assert_float64 v = (case v of Some (FFloat r) \<Rightarrow> Inr r | _ \<Rightarrow> Inl InterfaceConversion)"

text \<open>\<^verbatim>\<open>x, ok := v.(float64)\<close> never panics: it gives the zero value and \<open>False\<close>.\<close>

definition assert_float64_ok :: "field option \<Rightarrow> real \<times> bool" where
  "assert_float64_ok v = (case v of Some (FFloat r) \<Rightarrow> (r, True) | _ \<Rightarrow> (0, False))"

text \<open>
  \<^verbatim>\<open>fmt.Sprintf("%.2f", v)\<close> for an interface value: a float64 is rendered, anything
  else is reported in the output, as \<^verbatim>\<open>fmt\<close> does for a wrong operand
  (the precision still cuts a string operand).
\<close>

definition sprintf_f2 :: "field option \<Rightarrow> string" where
  "sprintf_f2 v =
     (case v of
        Some (FFloat r) \<Rightarrow> fmt_f 2 r
      | Some (FBool b) \<Rightarrow> ''%!f(bool='' @ (if b then ''true'' else ''false'') @ '')''
      | Some (FString s) \<Rightarrow> ''%!f(string='' @ take 2 s @ '')''
      | _ \<Rightarrow> ''%!f(<nil>)'')"

subsection \<open>The rolling state and \<^verbatim>\<open>checkEvent\<close>\<close>

record state =
  lastRainTotal :: real
  lastOutsideTemp :: real
  lastOutsideHumd :: real
  avgWind :: real

text \<open>Go initialises the package-level variables to zero.\<close>

definition init_state :: state where
  "init_state = \<lparr>lastRainTotal = 0, lastOutsideTemp = 0, lastOutsideHumd = 0, avgWind = 0\<rparr>"

definition rain_alert :: "event \<Rightarrow> alert" where
  "rain_alert ev =
     tweet (''It's raining! ('' @ sprintf_f2 (Fields ev ''day_total'') @ ''mm today)'') ''rain'' 7200"

definition temp_alert :: alert where
  "temp_alert = tweet ''Brrr, it's gone below zero!'' ''temp'' 7200"

definition humidity_alert :: alert where
  "humidity_alert = tweet ''Looks like rain...'' ''humidity'' 7200"

definition wind_alert :: "real \<Rightarrow> alert" where
  "wind_alert avg =
     tweet (''It's windy outside - '' @ fmt_f 1 (avg * 2.237) @ ''mph!'') ''wind'' 7200"

text \<open>
  The \<^verbatim>\<open>switch\<close> takes the first case equal to the device name, so the order of the
  tests matters when two configured names coincide; a device matching none is ignored.
\<close>

definition checkEvent :: "config \<Rightarrow> event \<Rightarrow> state \<Rightarrow> panic + (state \<times> alert list)" where
  "checkEvent cfg ev s =
     (if deviceName ev = Rain cfg then
        (case assert_float64 (Fields ev ''all_total'') of
           Inl p \<Rightarrow> Inl p
         | Inr rain \<Rightarrow>
             Inr (s\<lparr>lastRainTotal := rain\<rparr>,
                  if lastRainTotal s \<noteq> 0 \<and> rain > lastRainTotal s then [rain_alert ev] else []))
      else if deviceName ev = Temp cfg then
        (case assert_float64 (Fields ev ''temp'') of
           Inl p \<Rightarrow> Inl p
         | Inr t \<Rightarrow>
             (let (humd, ok) = assert_float64_ok (Fields ev ''humidity'')
              in Inr (s\<lparr>lastOutsideTemp := t, lastOutsideHumd := humd\<rparr>,
                      (if lastOutsideTemp s \<noteq> 0 \<and> lastOutsideTemp s \<ge> 0 \<and> t < 0
                       then [temp_alert] else [])
                      @ (if ok \<and> lastOutsideHumd s \<noteq> 0 \<and> lastOutsideHumd s < 96 \<and> humd \<ge> 96
                         then [humidity_alert] else []))))
      else if deviceName ev = Wind cfg then
        (case assert_float64 (Fields ev ''speed'') of
           Inl p \<Rightarrow> Inl p
         | Inr speed \<Rightarrow>
             (let avg = avgWind s * 39 / 40 + speed * 1 / 40
              in Inr (s\<lparr>avgWind := avg\<rparr>,
                      if avg > Windy cfg then [wind_alert avg] else [])))
      else Inr (s, []))"

subsection \<open>The daily digest\<close>

text \<open>
  The graphite client (\<^verbatim>\<open>lib/graphite\<close>) is outside this package.
  \<^verbatim>\<open>gr.Query(from, until, target)\<close> returns the series of the target or an error; the
  model of a client is the function from the three arguments to that result.
\<close>

record datapoint =
  At :: int
  Value :: real

record dataseries =
  Target :: string
  Datapoints :: "datapoint list"

type_synonym graphite = "string \<Rightarrow> string \<Rightarrow> string \<Rightarrow> string + dataseries list"

text \<open>The target \<^verbatim>\<open>summarize(sensor.%s.%s,"100y","%s")\<close>; \<open>CHR 0x22\<close> is the double quote.\<close>

definition query_target :: "string \<Rightarrow> string \<Rightarrow> string" where
  "query_target sensor cf =
     ''summarize(sensor.'' @ sensor @ ''.'' @ cf @ '','' @ [CHR 0x22] @ ''100y'' @ [CHR 0x22]
     @ '','' @ [CHR 0x22] @ cf @ [CHR 0x22] @ '')''"

text \<open>
  \<^verbatim>\<open>getLast24\<close>: a failed query is logged and reported as 0.0; otherwise
  \<^verbatim>\<open>data[0].Datapoints[0].Value\<close>, where each index panics on an empty slice.
\<close>

definition getLast24 :: "graphite \<Rightarrow> string \<Rightarrow> string \<Rightarrow> panic + real" where
  "getLast24 gr sensor cf =
     (case gr ''-24h'' ''now'' (query_target sensor cf) of
        Inl err \<Rightarrow> Inr 0
      | Inr data \<Rightarrow>
          (case data of
             [] \<Rightarrow> Inl IndexOutOfRange
           | d # _ \<Rightarrow>
               (case Datapoints d of
                  [] \<Rightarrow> Inl IndexOutOfRange
                | pt # _ \<Rightarrow> Inr (Value pt))))"

definition no_data_message :: string where
  "no_data_message = ''Weather: I didn't get any outside temperature data yesterday!''"

text \<open>The degree sign of the format string is the two bytes C2 B0 of its UTF-8 form.\<close>

definition digest_message :: "string \<Rightarrow> real \<Rightarrow> string \<Rightarrow> real \<Rightarrow> string" where
  "digest_message highestDesc highest lowestDesc lowest =
     ''Weather: Outside it got up to '' @ highestDesc @ '' '' @ fmt_f 1 highest
     @ [CHR 0xC2, CHR 0xB0] @ ''C and went down to '' @ lowestDesc @ '' '' @ fmt_f 1 lowest
     @ [CHR 0xC2, CHR 0xB0] @ ''C in the last 24 hours.''"

definition weatherStats :: "graphite \<Rightarrow> panic + string" where
  "weatherStats gr =
     (case getLast24 gr ''garden.temp'' ''max'' of
        Inl p \<Rightarrow> Inl p
      | Inr highest \<Rightarrow>
          (let highestDesc = getTempDesc highest highTemperatures
           in case getLast24 gr ''garden.temp'' ''min'' of
                Inl p \<Rightarrow> Inl p
              | Inr lowest \<Rightarrow>
                  (let lowestDesc = getTempDesc lowest lowTemperatures
                   in if lowest = 0 \<and> highest = 0 then Inr no_data_message
                      else Inr (digest_message highestDesc highest lowestDesc lowest))))"

definition tick :: "graphite \<Rightarrow> panic + alert list" where
  "tick gr = (case weatherStats gr of Inl p \<Rightarrow> Inl p | Inr msg \<Rightarrow> Inr [tweet msg ''daily'' 0])"

subsection \<open>The service loop\<close>

text \<open>
  \<^verbatim>\<open>Run\<close> waits for an event or for the daily tick and handles it to the end before
  it waits again. An input is an event or a tick; the tick carries what the graphite
  client answers at that moment. The loop never returns of itself, so the model runs
  it over a finite sequence of inputs: \<open>Inr\<close> is the state and the alerts sent when all
  of them have been handled, \<open>Inl\<close> the panic that ended the goroutine at some input
  (\<^verbatim>\<open>Run\<close> has no \<^verbatim>\<open>recover\<close>).
\<close>

datatype input = Event event | Tick graphite

fun handle :: "config \<Rightarrow> input \<Rightarrow> state \<Rightarrow> panic + (state \<times> alert list)" where
  "handle cfg (Event ev) s = checkEvent cfg ev s"
| "handle cfg (Tick gr) s = (case tick gr of Inl p \<Rightarrow> Inl p | Inr as \<Rightarrow> Inr (s, as))"

fun run :: "config \<Rightarrow> input list \<Rightarrow> state \<Rightarrow> panic + (state \<times> alert list)" where
  "run cfg [] s = Inr (s, [])"
| "run cfg (i # inputs) s =
     (case handle cfg i s of
        Inl p \<Rightarrow> Inl p
      | Inr (s', as) \<Rightarrow>
          (case run cfg inputs s' of
             Inl p \<Rightarrow> Inl p
           | Inr (s'', bs) \<Rightarrow> Inr (s'', as @ bs)))"

subsection \<open>Reading results, and inputs to evaluate the code on\<close>

text \<open>The alerts a call sent: none when it panicked, since every panic of
  \<^verbatim>\<open>checkEvent\<close> and of \<^verbatim>\<open>tick\<close> comes before its first \<^verbatim>\<open>tweet\<close>.\<close>

definition alerts_of :: "panic + (state \<times> alert list) \<Rightarrow> alert list" where
  "alerts_of r = (case r of Inl p \<Rightarrow> [] | Inr (s, as) \<Rightarrow> as)"

definition example_config :: config where
  "example_config =
     \<lparr>Rain = ''rain.garden'', Temp = ''temp.garden'', Wind = ''wind.garden'', Windy = 6\<rparr>"

definition rain_reading :: "config \<Rightarrow> real \<Rightarrow> real \<Rightarrow> event" where
  "rain_reading cfg all_total day_total =
     \<lparr>deviceName = Rain cfg,
      Fields = [''all_total'' \<mapsto> FFloat all_total, ''day_total'' \<mapsto> FFloat day_total]\<rparr>"

definition temp_reading :: "config \<Rightarrow> real \<Rightarrow> event" where
  "temp_reading cfg t = \<lparr>deviceName = Temp cfg, Fields = [''temp'' \<mapsto> FFloat t]\<rparr>"

definition temp_humd_reading :: "config \<Rightarrow> real \<Rightarrow> real \<Rightarrow> event" where
  "temp_humd_reading cfg t h =
     \<lparr>deviceName = Temp cfg, Fields = [''temp'' \<mapsto> FFloat t, ''humidity'' \<mapsto> FFloat h]\<rparr>"

definition wind_reading :: "config \<Rightarrow> real \<Rightarrow> event" where
  "wind_reading cfg speed = \<lparr>deviceName = Wind cfg, Fields = [''speed'' \<mapsto> FFloat speed]\<rparr>"

text \<open>A graphite answer of one series with one point, and a client that answers the two
  queries of the digest as given.\<close>

definition one_point :: "real \<Rightarrow> string + dataseries list" where
  "one_point v = Inr [\<lparr>Target = ''garden.temp'', Datapoints = [\<lparr>At = 0, Value = v\<rparr>]\<rparr>]"

definition example_graphite ::
  "(string + dataseries list) \<Rightarrow> (string + dataseries list) \<Rightarrow> graphite" where
  "example_graphite mx mn from until tgt =
     (if tgt = query_target ''garden.temp'' ''max'' then mx
      else if tgt = query_target ''garden.temp'' ''min'' then mn
      else Inl ''no such target'')"

text \<open>The wind average after \<open>n\<close> wind Readings of one speed, handled in a row.\<close>

definition avg_after :: "config \<Rightarrow> real \<Rightarrow> state \<Rightarrow> nat \<Rightarrow> real" where
  "avg_after cfg speed s n =
     (case run cfg (replicate n (Event (wind_reading cfg speed))) s of
        Inl p \<Rightarrow> avgWind s
      | Inr (s', as) \<Rightarrow> avgWind s')"

section \<open>Properties\<close>

subsection \<open>Threshold classification\<close>

lemma getTempDesc_hit:
  "i < length temps \<Longrightarrow> \<forall>j<i. \<not> t < temp (temps ! j) \<Longrightarrow> t < temp (temps ! i)
   \<Longrightarrow> getTempDesc t temps = noun (temps ! i)"
proof (induction temps arbitrary: i)
  case Nil
  then show ?case by simp
next
  case (Cons e temps)
  show ?case
  proof (cases i)
    case 0
    with Cons.prems show ?thesis by simp
  next
    case (Suc k)
    from Cons.prems(2) Suc have head: "\<not> t < temp e" by auto
    from Cons.prems(2) Suc have below: "\<forall>j<k. \<not> t < temp (temps ! j)" by auto
    from Cons.prems(1,3) Suc have "k < length temps" "t < temp (temps ! k)" by auto
    with below have "getTempDesc t temps = noun (temps ! k)" by (simp add: Cons.IH)
    with head Suc show ?thesis by simp
  qed
qed

lemma getTempDesc_miss:
  "\<forall>e\<in>set temps. \<not> t < temp e \<Longrightarrow> getTempDesc t temps = ''''"
  by (induction temps) auto

text \<open>
  Claim C7. \<^verbatim>\<open>getTempDesc\<close> is a total function of the value and the table: it returns
  the label of the first entry whose breakpoint is strictly above the value (entry \<open>i\<close>,
  when no entry before it is above the value), and the empty label when no breakpoint
  is above the value. For the table [(0, freezing), (5, cold)] the value -1 gives
  freezing, 3 gives cold and 10 gives the empty label. The table need not even be
  ascending for this.
\<close>

theorem getTempDesc_first_above:
  "(i < length temps \<and> (\<forall>j<i. temp (temps ! j) \<le> t) \<and> t < temp (temps ! i)
      \<longrightarrow> getTempDesc t temps = noun (temps ! i))
   \<and> ((\<forall>e\<in>set temps. temp e \<le> t) \<longrightarrow> getTempDesc t temps = '''')
   \<and> getTempDesc (-1) [\<lparr>temp = 0, noun = ''freezing''\<rparr>, \<lparr>temp = 5, noun = ''cold''\<rparr>] = ''freezing''
   \<and> getTempDesc 3 [\<lparr>temp = 0, noun = ''freezing''\<rparr>, \<lparr>temp = 5, noun = ''cold''\<rparr>] = ''cold''
   \<and> getTempDesc 10 [\<lparr>temp = 0, noun = ''freezing''\<rparr>, \<lparr>temp = 5, noun = ''cold''\<rparr>] = ''''"
proof -
  have hit: "i < length temps \<and> (\<forall>j<i. temp (temps ! j) \<le> t) \<and> t < temp (temps ! i)
      \<longrightarrow> getTempDesc t temps = noun (temps ! i)"
    using getTempDesc_hit [of i temps t] by (simp add: not_less)
  have miss: "(\<forall>e\<in>set temps. temp e \<le> t) \<longrightarrow> getTempDesc t temps = ''''"
    using getTempDesc_miss [of temps t] by (simp add: not_less)
  from hit miss show ?thesis by simp
qed

theorem getTempDesc_first_above_witness:
  "1 < length lowTemperatures \<and> temp (lowTemperatures ! 0) \<le> -3.5
   \<and> -3.5 < temp (lowTemperatures ! 1)
   \<and> getTempDesc (-3.5) lowTemperatures = ''a rather cold''
   \<and> list_all (\<lambda>e. temp e \<le> 40) highTemperatures
   \<and> getTempDesc 40 highTemperatures = ''''"
proof -
  have a: "1 < length lowTemperatures \<and> (\<forall>j<1. temp (lowTemperatures ! j) \<le> -3.5)
      \<and> -3.5 < temp (lowTemperatures ! 1)"
    by (simp add: lowTemperatures_def)
  have b: "\<forall>e\<in>set highTemperatures. temp e \<le> 40"
    by (simp add: highTemperatures_def)
  from a getTempDesc_first_above [of 1 lowTemperatures "-3.5"]
  have c: "getTempDesc (-3.5) lowTemperatures = noun (lowTemperatures ! 1)" by blast
  have d: "noun (lowTemperatures ! 1) = ''a rather cold''"
    by (simp add: lowTemperatures_def)
  from b getTempDesc_first_above [of 0 highTemperatures 40]
  have e: "getTempDesc 40 highTemperatures = ''''" by blast
  from a b c d e show ?thesis by (simp add: list_all_iff)
qed

subsection \<open>Rain\<close>

text \<open>
  Claim C5. A rain Reading (an event of the rain device whose \<^verbatim>\<open>all_total\<close> is a
  number) is handled without a panic from every state; the rain alert is sent iff the
  stored total was not zero and the new total is strictly greater than it, nothing else
  is sent, and in either case the stored total becomes the new total while the rest of
  the state stays as it was.
\<close>

theorem rain_alert_iff:
  assumes "deviceName ev = Rain cfg"
    and "Fields ev ''all_total'' = Some (FFloat rain)"
  shows "\<exists>as. checkEvent cfg ev s = Inr (s\<lparr>lastRainTotal := rain\<rparr>, as)
           \<and> (rain_alert ev \<in> set as \<longleftrightarrow> lastRainTotal s \<noteq> 0 \<and> rain > lastRainTotal s)
           \<and> (as = [] \<or> as = [rain_alert ev])"
  using assms by (simp add: checkEvent_def assert_float64_def)

theorem rain_alert_iff_witness:
  "deviceName (rain_reading example_config 12.5 3) = Rain example_config
   \<and> Fields (rain_reading example_config 12.5 3) ''all_total'' = Some (FFloat 12.5)
   \<and> checkEvent example_config (rain_reading example_config 12.5 3)
        (init_state\<lparr>lastRainTotal := 12\<rparr>)
      = Inr (init_state\<lparr>lastRainTotal := 12.5\<rparr>,
             [tweet ''It's raining! (3.00mm today)'' ''rain'' 7200])
   \<and> checkEvent example_config (rain_reading example_config 12.5 3) init_state
      = Inr (init_state\<lparr>lastRainTotal := 12.5\<rparr>, [])"
proof -
  let ?ev = "rain_reading example_config 12.5 3"
  have dev: "deviceName ?ev = Rain example_config"
    by (simp add: rain_reading_def)
  have fld: "Fields ?ev ''all_total'' = Some (FFloat 12.5)"
    by (simp add: rain_reading_def)
  have msg: "rain_alert ?ev = tweet ''It's raining! (3.00mm today)'' ''rain'' 7200"
    by (simp add: rain_alert_def rain_reading_def sprintf_f2_def fmt_f_def
        round_half_even_def dec_digits.simps)
  from rain_alert_iff [OF dev fld, of "init_state\<lparr>lastRainTotal := 12\<rparr>"]
  have seeded: "checkEvent example_config ?ev (init_state\<lparr>lastRainTotal := 12\<rparr>)
      = Inr (init_state\<lparr>lastRainTotal := 12.5\<rparr>, [rain_alert ?ev])"
    by auto
  from rain_alert_iff [OF dev fld, of init_state]
  have unseeded: "checkEvent example_config ?ev init_state
      = Inr (init_state\<lparr>lastRainTotal := 12.5\<rparr>, [])"
    by (auto simp: init_state_def)
  from dev fld msg seeded unseeded show ?thesis by simp
qed

subsection \<open>Temperature and humidity\<close>

lemma alert_messages_differ: "temp_alert \<noteq> humidity_alert"
  by (simp add: temp_alert_def humidity_alert_def tweet_def)

lemma checkEvent_temp:
  assumes "Temp cfg \<noteq> Rain cfg" and "deviceName ev = Temp cfg"
    and "Fields ev ''temp'' = Some (FFloat t)"
  shows "checkEvent cfg ev s =
    Inr (s\<lparr>lastOutsideTemp := t, lastOutsideHumd := fst (assert_float64_ok (Fields ev ''humidity''))\<rparr>,
         (if lastOutsideTemp s \<noteq> 0 \<and> lastOutsideTemp s \<ge> 0 \<and> t < 0 then [temp_alert] else [])
         @ (if snd (assert_float64_ok (Fields ev ''humidity'')) \<and> lastOutsideHumd s \<noteq> 0
               \<and> lastOutsideHumd s < 96 \<and> fst (assert_float64_ok (Fields ev ''humidity'')) \<ge> 96
            then [humidity_alert] else []))"
  using assms by (simp add: checkEvent_def assert_float64_def split: prod.splits)

lemma checkEvent_temp_reading:
  assumes "Temp cfg \<noteq> Rain cfg"
  shows "checkEvent cfg (temp_reading cfg t) s =
    Inr (s\<lparr>lastOutsideTemp := t, lastOutsideHumd := 0\<rparr>,
         if lastOutsideTemp s \<noteq> 0 \<and> lastOutsideTemp s \<ge> 0 \<and> t < 0 then [temp_alert] else [])"
  using assms
  by (simp add: checkEvent_temp [of cfg _ t] temp_reading_def assert_float64_ok_def)

text \<open>
  Claim C6. A temperature Reading (an event that reaches the temperature case and
  whose \<^verbatim>\<open>temp\<close> is a number) is handled without a panic; the below-zero alert is sent
  iff the stored temperature was not zero, was at least 0 and the new one is below 0,
  it is sent at most once, and the stored temperature becomes the new one. For the
  readings 1.0 then -0.5 exactly one such alert is sent, from whatever state; for -1.0
  then -2.0 none is sent from a state whose stored temperature is not above zero
  (already below, or the initial state that -1.0 seeds), and none for -2.0 once -1.0
  is stored.
\<close>

theorem below_zero_alert_iff:
  assumes "Temp cfg \<noteq> Rain cfg" and "deviceName ev = Temp cfg"
    and "Fields ev ''temp'' = Some (FFloat t)"
  shows "(\<exists>s' as. checkEvent cfg ev s = Inr (s', as) \<and> lastOutsideTemp s' = t
            \<and> (temp_alert \<in> set as \<longleftrightarrow>
                 lastOutsideTemp s \<noteq> 0 \<and> lastOutsideTemp s \<ge> 0 \<and> t < 0)
            \<and> count_list as temp_alert \<le> 1)
       \<and> count_list (alerts_of (run cfg [Event (temp_reading cfg 1), Event (temp_reading cfg (-0.5))] s))
            temp_alert = 1
       \<and> (lastOutsideTemp s \<le> 0 \<longrightarrow>
            count_list (alerts_of (run cfg [Event (temp_reading cfg (-1)), Event (temp_reading cfg (-2))] s))
              temp_alert = 0)
       \<and> alerts_of (checkEvent cfg (temp_reading cfg (-2)) (s\<lparr>lastOutsideTemp := -1\<rparr>)) = []"
proof -
  have single: "\<exists>s' as. checkEvent cfg ev s = Inr (s', as) \<and> lastOutsideTemp s' = t
            \<and> (temp_alert \<in> set as \<longleftrightarrow>
                 lastOutsideTemp s \<noteq> 0 \<and> lastOutsideTemp s \<ge> 0 \<and> t < 0)
            \<and> count_list as temp_alert \<le> 1"
    using alert_messages_differ by (simp add: checkEvent_temp [OF assms])
  have down: "count_list (alerts_of (run cfg [Event (temp_reading cfg 1), Event (temp_reading cfg (-0.5))] s))
            temp_alert = 1"
    using assms(1) by (simp add: checkEvent_temp_reading alerts_of_def)
  have below: "lastOutsideTemp s \<le> 0 \<longrightarrow>
            count_list (alerts_of (run cfg [Event (temp_reading cfg (-1)), Event (temp_reading cfg (-2))] s))
              temp_alert = 0"
    using assms(1) by (simp add: checkEvent_temp_reading alerts_of_def)
  have stored: "alerts_of (checkEvent cfg (temp_reading cfg (-2)) (s\<lparr>lastOutsideTemp := -1\<rparr>)) = []"
    using assms(1) by (simp add: checkEvent_temp_reading alerts_of_def)
  from single down below stored show ?thesis by blast
qed

theorem below_zero_alert_iff_witness:
  "Temp example_config \<noteq> Rain example_config
   \<and> deviceName (temp_reading example_config (-0.5)) = Temp example_config
   \<and> Fields (temp_reading example_config (-0.5)) ''temp'' = Some (FFloat (-0.5))
   \<and> lastOutsideTemp (init_state\<lparr>lastOutsideTemp := -3\<rparr>) \<le> 0
   \<and> checkEvent example_config (temp_reading example_config (-0.5)) (init_state\<lparr>lastOutsideTemp := 1\<rparr>)
      = Inr (init_state\<lparr>lastOutsideTemp := -0.5\<rparr>, [temp_alert])
   \<and> count_list (alerts_of (run example_config
         [Event (temp_reading example_config (-1)), Event (temp_reading example_config (-2))]
         (init_state\<lparr>lastOutsideTemp := -3\<rparr>))) temp_alert = 0"
proof -
  let ?ev = "temp_reading example_config (-0.5)"
  have cfg: "Temp example_config \<noteq> Rain example_config"
    by (simp add: example_config_def)
  have dev: "deviceName ?ev = Temp example_config"
    by (simp add: temp_reading_def)
  have fld: "Fields ?ev ''temp'' = Some (FFloat (-0.5))"
    by (simp add: temp_reading_def)
  have pre: "lastOutsideTemp (init_state\<lparr>lastOutsideTemp := -3\<rparr>) \<le> 0"
    by simp
  note thm1 = below_zero_alert_iff [OF cfg dev fld, of "init_state\<lparr>lastOutsideTemp := 1\<rparr>"]
  note thm2 = below_zero_alert_iff [OF cfg dev fld, of "init_state\<lparr>lastOutsideTemp := -3\<rparr>"]
  from thm1 obtain s' as where
    r: "checkEvent example_config ?ev (init_state\<lparr>lastOutsideTemp := 1\<rparr>) = Inr (s', as)"
    and "temp_alert \<in> set as"
    by auto
  moreover have "checkEvent example_config ?ev (init_state\<lparr>lastOutsideTemp := 1\<rparr>)
      = Inr (init_state\<lparr>lastOutsideTemp := -0.5\<rparr>, [temp_alert])"
    using cfg by (simp add: checkEvent_temp_reading init_state_def)
  moreover from thm2 pre have "count_list (alerts_of (run example_config
         [Event (temp_reading example_config (-1)), Event (temp_reading example_config (-2))]
         (init_state\<lparr>lastOutsideTemp := -3\<rparr>))) temp_alert = 0"
    by blast
  ultimately show ?thesis using cfg dev fld pre by simp
qed

text \<open>
  Against claim C4 as stated: a temperature Reading without \<^verbatim>\<open>humidity\<close> does not
  leave the stored humidity as it was. A stored 90 becomes 0.
\<close>

theorem humidity_absent_resets_counterexample:
  "Fields (temp_reading example_config 12) ''humidity'' = None
   \<and> lastOutsideHumd (init_state\<lparr>lastOutsideTemp := 10, lastOutsideHumd := 90\<rparr>) = 90
   \<and> checkEvent example_config (temp_reading example_config 12)
        (init_state\<lparr>lastOutsideTemp := 10, lastOutsideHumd := 90\<rparr>)
      = Inr (init_state\<lparr>lastOutsideTemp := 12, lastOutsideHumd := 0\<rparr>, [])"
  by (simp add: checkEvent_def temp_reading_def example_config_def init_state_def
      assert_float64_def assert_float64_ok_def)

text \<open>
  Claim C4, as the code has it. On a temperature Reading whose \<^verbatim>\<open>humidity\<close> is a
  number, the looks-like-rain alert is sent iff the stored humidity was not zero, was
  below 96 and the new humidity is at least 96, and the stored humidity becomes the
  new one. When \<^verbatim>\<open>humidity\<close> is absent (or is not a number) no such alert is sent and
  the stored humidity is set to 0, the value of a humidity never seen.
\<close>

theorem humidity_alert_iff:
  assumes "Temp cfg \<noteq> Rain cfg" and "deviceName ev = Temp cfg"
    and "Fields ev ''temp'' = Some (FFloat t)"
  shows "\<exists>s' as. checkEvent cfg ev s = Inr (s', as)
          \<and> (Fields ev ''humidity'' = Some (FFloat humd) \<longrightarrow>
                lastOutsideHumd s' = humd
                \<and> (humidity_alert \<in> set as \<longleftrightarrow>
                     lastOutsideHumd s \<noteq> 0 \<and> lastOutsideHumd s < 96 \<and> humd \<ge> 96))
          \<and> ((\<nexists>h. Fields ev ''humidity'' = Some (FFloat h)) \<longrightarrow>
                lastOutsideHumd s' = 0 \<and> humidity_alert \<notin> set as)"
proof -
  have absent: "assert_float64_ok (Fields ev ''humidity'') = (0, False)"
    if "\<nexists>h. Fields ev ''humidity'' = Some (FFloat h)"
    using that by (auto simp: assert_float64_ok_def split: option.splits field.splits)
  have present: "assert_float64_ok (Fields ev ''humidity'') = (humd, True)"
    if "Fields ev ''humidity'' = Some (FFloat humd)"
    using that by (simp add: assert_float64_ok_def)
  show ?thesis
    using alert_messages_differ absent present
    by (auto simp: checkEvent_temp [OF assms])
qed

theorem humidity_alert_iff_witness:
  "Temp example_config \<noteq> Rain example_config
   \<and> deviceName (temp_humd_reading example_config 12 97) = Temp example_config
   \<and> Fields (temp_humd_reading example_config 12 97) ''temp'' = Some (FFloat 12)
   \<and> Fields (temp_humd_reading example_config 12 97) ''humidity'' = Some (FFloat 97)
   \<and> alerts_of (checkEvent example_config (temp_humd_reading example_config 12 97)
        (init_state\<lparr>lastOutsideTemp := 10, lastOutsideHumd := 90\<rparr>)) = [humidity_alert]
   \<and> deviceName (temp_reading example_config 12) = Temp example_config
   \<and> Fields (temp_reading example_config 12) ''temp'' = Some (FFloat 12)
   \<and> \<not> (\<exists>h. Fields (temp_reading example_config 12) ''humidity'' = Some (FFloat h))
   \<and> alerts_of (checkEvent example_config (temp_reading example_config 12)
        (init_state\<lparr>lastOutsideTemp := 10, lastOutsideHumd := 90\<rparr>)) = []"
proof -
  let ?s = "init_state\<lparr>lastOutsideTemp := 10, lastOutsideHumd := 90\<rparr>"
  let ?ev = "temp_humd_reading example_config 12 97"
  let ?ev' = "temp_reading example_config 12"
  have cfg: "Temp example_config \<noteq> Rain example_config"
    by (simp add: example_config_def)
  have dev: "deviceName ?ev = Temp example_config" and fld: "Fields ?ev ''temp'' = Some (FFloat 12)"
    and hum: "Fields ?ev ''humidity'' = Some (FFloat 97)"
    by (simp_all add: temp_humd_reading_def)
  have dev': "deviceName ?ev' = Temp example_config"
    and fld': "Fields ?ev' ''temp'' = Some (FFloat 12)"
    and hum': "\<not> (\<exists>h. Fields ?ev' ''humidity'' = Some (FFloat h))"
    by (simp_all add: temp_reading_def)
  from humidity_alert_iff [OF cfg dev fld, of ?s 97] hum
  obtain s' as where "checkEvent example_config ?ev ?s = Inr (s', as)"
    and "humidity_alert \<in> set as"
    by auto
  moreover have "alerts_of (checkEvent example_config ?ev ?s) = [humidity_alert]"
    using cfg by (simp add: checkEvent_temp [OF cfg dev fld] hum assert_float64_ok_def alerts_of_def)
  moreover from humidity_alert_iff [OF cfg dev' fld', of ?s] hum'
  obtain s'' bs where "checkEvent example_config ?ev' ?s = Inr (s'', bs)"
    and "humidity_alert \<notin> set bs"
    by auto
  moreover have "alerts_of (checkEvent example_config ?ev' ?s) = []"
    using cfg by (simp add: checkEvent_temp_reading alerts_of_def)
  ultimately show ?thesis using cfg dev fld hum dev' fld' hum' by simp
qed

subsection \<open>The first Reading, and a Reading handled twice\<close>

text \<open>
  Against claim C3 as stated: with the threshold 6, a first wind Reading of speed 400
  from the initial state makes the average 10 and sends the wind alert.
\<close>

theorem first_wind_reading_counterexample:
  "Windy example_config = 6
   \<and> checkEvent example_config (wind_reading example_config 400) init_state
      = Inr (init_state\<lparr>avgWind := 10\<rparr>,
             [tweet ''It's windy outside - 22.4mph!'' ''wind'' 7200])"
  by (simp add: checkEvent_def wind_reading_def example_config_def init_state_def
      assert_float64_def wind_alert_def fmt_f_def round_half_even_def dec_digits.simps)

text \<open>
  Claim C3, as the code has it. From the initial all-zero state, an event that reaches
  the rain or the temperature case (which also holds the humidity check) sends no
  alert, whatever it carries: every one of these checks asks for a stored value other
  than zero. The wind case has no such gate: it compares the updated average, which is
  a fortieth of the first speed, with the threshold, so the first wind Reading sends
  no alert provided its speed is at most forty times the threshold.
\<close>

theorem first_reading_no_alert:
  "(deviceName ev = Rain cfg \<or> deviceName ev = Temp cfg
      \<longrightarrow> alerts_of (checkEvent cfg ev init_state) = [])
   \<and> (Wind cfg \<noteq> Rain cfg \<and> Wind cfg \<noteq> Temp cfg \<and> speed / 40 \<le> Windy cfg
      \<longrightarrow> alerts_of (checkEvent cfg (wind_reading cfg speed) init_state) = [])"
proof -
  have rain: "alerts_of (checkEvent cfg ev init_state) = []" if "deviceName ev = Rain cfg"
    using that
    by (simp add: checkEvent_def alerts_of_def init_state_def split: sum.splits)
  have temp: "alerts_of (checkEvent cfg ev init_state) = []"
    if "deviceName ev \<noteq> Rain cfg" and "deviceName ev = Temp cfg"
    using that
    by (simp add: checkEvent_def alerts_of_def init_state_def split: sum.splits prod.splits)
  have wind: "alerts_of (checkEvent cfg (wind_reading cfg speed) init_state) = []"
    if "Wind cfg \<noteq> Rain cfg" and "Wind cfg \<noteq> Temp cfg" and "speed / 40 \<le> Windy cfg"
    using that
    by (auto simp: checkEvent_def alerts_of_def init_state_def wind_reading_def
        assert_float64_def Let_def)
  from rain temp wind show ?thesis by blast
qed

theorem first_reading_no_alert_witness:
  "deviceName (rain_reading example_config 12.5 3) = Rain example_config
   \<and> alerts_of (checkEvent example_config (rain_reading example_config 12.5 3) init_state) = []
   \<and> deviceName (temp_humd_reading example_config (-4) 99) = Temp example_config
   \<and> alerts_of (checkEvent example_config (temp_humd_reading example_config (-4) 99) init_state) = []
   \<and> Wind example_config \<noteq> Rain example_config \<and> Wind example_config \<noteq> Temp example_config
   \<and> 8 / 40 \<le> Windy example_config
   \<and> alerts_of (checkEvent example_config (wind_reading example_config 8) init_state) = []"
proof -
  have r: "deviceName (rain_reading example_config 12.5 3) = Rain example_config"
    by (simp add: rain_reading_def)
  have t: "deviceName (temp_humd_reading example_config (-4) 99) = Temp example_config"
    by (simp add: temp_humd_reading_def)
  have w: "Wind example_config \<noteq> Rain example_config \<and> Wind example_config \<noteq> Temp example_config"
    by (simp add: example_config_def)
  have v: "8 / 40 \<le> Windy example_config"
    by (simp add: example_config_def)
  from r first_reading_no_alert [of "rain_reading example_config 12.5 3" example_config]
  have "alerts_of (checkEvent example_config (rain_reading example_config 12.5 3) init_state) = []"
    by blast
  moreover
  from t first_reading_no_alert [of "temp_humd_reading example_config (-4) 99" example_config]
  have "alerts_of (checkEvent example_config (temp_humd_reading example_config (-4) 99) init_state) = []"
    by blast
  moreover
  from w v first_reading_no_alert [of _ example_config 8]
  have "alerts_of (checkEvent example_config (wind_reading example_config 8) init_state) = []"
    by blast
  ultimately show ?thesis using r t w v by simp
qed

lemma checkEvent_again:
  assumes "checkEvent cfg ev s = Inr (s', as)"
    and "deviceName ev = Rain cfg \<or> deviceName ev = Temp cfg"
  shows "checkEvent cfg ev s' = Inr (s', [])"
proof (cases "deviceName ev = Rain cfg")
  case True
  with assms(1) show ?thesis
    by (auto simp: checkEvent_def split: sum.splits)
next
  case False
  with assms(2) have "deviceName ev = Temp cfg" by simp
  with assms(1) False show ?thesis
    by (auto simp: checkEvent_def split: sum.splits prod.splits)
qed

lemma checkEvent_distinct:
  assumes "deviceName ev = Rain cfg \<or> deviceName ev = Temp cfg"
  shows "distinct (alerts_of (checkEvent cfg ev s))"
proof (cases "deviceName ev = Rain cfg")
  case True
  then show ?thesis
    by (simp add: checkEvent_def alerts_of_def split: sum.splits)
next
  case False
  with assms have "deviceName ev = Temp cfg" by simp
  with False show ?thesis
    using alert_messages_differ
    by (simp add: checkEvent_def alerts_of_def split: sum.splits prod.splits)
qed

text \<open>
  Claim C9. An event that reaches the rain or the temperature case (the one-way
  checks: rain, below zero, humidity) and is handled twice in a row sends on the second
  pass nothing at all and leaves the state as the first pass made it: handling it
  twice gives the state and the alerts of handling it once (a panic of the first pass
  is the result of both). A single pass sends each alert at most once.
\<close>

theorem replay_sends_nothing:
  assumes "deviceName ev = Rain cfg \<or> deviceName ev = Temp cfg"
  shows "run cfg [Event ev, Event ev] s = checkEvent cfg ev s
       \<and> (\<forall>s' as. checkEvent cfg ev s = Inr (s', as) \<longrightarrow> checkEvent cfg ev s' = Inr (s', []))
       \<and> distinct (alerts_of (checkEvent cfg ev s))"
proof -
  have second: "checkEvent cfg ev s' = Inr (s', [])" if "checkEvent cfg ev s = Inr (s', as)" for s' as
    using that assms by (rule checkEvent_again)
  have twice: "run cfg [Event ev, Event ev] s = checkEvent cfg ev s"
  proof (cases "checkEvent cfg ev s")
    case (Inl p)
    then show ?thesis by simp
  next
    case (Inr r)
    obtain s' as where r: "r = (s', as)" by (cases r)
    with Inr second [of s' as] show ?thesis by simp
  qed
  from second twice checkEvent_distinct [OF assms] show ?thesis by blast
qed

theorem replay_sends_nothing_witness:
  "(deviceName (rain_reading example_config 12.5 3) = Rain example_config
      \<or> deviceName (rain_reading example_config 12.5 3) = Temp example_config)
   \<and> run example_config
        [Event (rain_reading example_config 12.5 3), Event (rain_reading example_config 12.5 3)]
        (init_state\<lparr>lastRainTotal := 12\<rparr>)
      = Inr (init_state\<lparr>lastRainTotal := 12.5\<rparr>, [rain_alert (rain_reading example_config 12.5 3)])"
proof -
  let ?ev = "rain_reading example_config 12.5 3"
  have dev: "deviceName ?ev = Rain example_config \<or> deviceName ?ev = Temp example_config"
    by (simp add: rain_reading_def)
  have once: "checkEvent example_config ?ev (init_state\<lparr>lastRainTotal := 12\<rparr>)
      = Inr (init_state\<lparr>lastRainTotal := 12.5\<rparr>, [rain_alert ?ev])"
    by (simp add: checkEvent_def rain_reading_def assert_float64_def init_state_def)
  from replay_sends_nothing [OF dev, of "init_state\<lparr>lastRainTotal := 12\<rparr>"]
  have "run example_config [Event ?ev, Event ?ev] (init_state\<lparr>lastRainTotal := 12\<rparr>)
      = checkEvent example_config ?ev (init_state\<lparr>lastRainTotal := 12\<rparr>)"
    by blast
  with once dev show ?thesis by (simp only: simp_thms)
qed

subsection \<open>The digest\<close>

lemma digest_is_not_fallback: "digest_message hdesc h ldesc l \<noteq> no_data_message"
  by (simp add: digest_message_def no_data_message_def)

lemma weatherStats_values:
  assumes "getLast24 gr ''garden.temp'' ''max'' = Inr highest"
    and "getLast24 gr ''garden.temp'' ''min'' = Inr lowest"
  shows "weatherStats gr =
    (if lowest = 0 \<and> highest = 0 then Inr no_data_message
     else Inr (digest_message (getTempDesc highest highTemperatures) highest
                 (getTempDesc lowest lowTemperatures) lowest))"
  using assms by (simp add: weatherStats_def)

lemma example_graphite_max:
  "example_graphite mx mn ''-24h'' ''now'' (query_target ''garden.temp'' ''max'') = mx"
  by (simp add: example_graphite_def)

lemma example_graphite_min:
  "example_graphite mx mn ''-24h'' ''now'' (query_target ''garden.temp'' ''min'') = mn"
  by (simp add: example_graphite_def query_target_def)

lemma round_half_even_close: "\<bar>x - of_int (round_half_even x)\<bar> \<le> 1 / 2"
  unfolding round_half_even_def Let_def by (auto; linarith)

lemma round_half_even_nonneg: "0 \<le> x \<Longrightarrow> 0 \<le> round_half_even x"
  unfolding round_half_even_def Let_def by auto

lemma dec_digits_single: "d < 10 \<Longrightarrow> dec_digits d = [''0123456789'' ! d]"
  by (simp add: dec_digits.simps)

lemma fmt_f_one_decimal:
  "\<exists>n d. d < 10
     \<and> fmt_f 1 x = (if x < 0 then ''-'' else '''') @ dec_digits n @ ''.'' @ [''0123456789'' ! d]
     \<and> \<bar>\<bar>x\<bar> - (real n + real d / 10)\<bar> \<le> 1 / 20"
proof -
  define N where "N = nat (round_half_even (\<bar>x\<bar> * 10))"
  have nonneg: "0 \<le> round_half_even (\<bar>x\<bar> * 10)"
    by (rule round_half_even_nonneg) simp
  have "real N = of_int (round_half_even (\<bar>x\<bar> * 10))"
    using nonneg by (simp add: N_def)
  with round_half_even_close [of "\<bar>x\<bar> * 10"]
  have close: "\<bar>\<bar>x\<bar> * 10 - real N\<bar> \<le> 1 / 2" by simp
  have split: "real N = 10 * real (N div 10) + real (N mod 10)"
    by (metis of_nat_add of_nat_mult of_nat_numeral mult_div_mod_eq)
  have d: "N mod 10 < 10" by simp
  have shape: "fmt_f 1 x = (if x < 0 then ''-'' else '''') @ dec_digits (N div 10) @ ''.''
      @ [''0123456789'' ! (N mod 10)]"
    using d by (simp add: fmt_f_def N_def [symmetric] dec_digits_single Let_def del: One_nat_def)
  have "\<bar>\<bar>x\<bar> - (real (N div 10) + real (N mod 10) / 10)\<bar> \<le> 1 / 20"
    using close split by (simp add: field_simps abs_le_iff)
  with d shape show ?thesis by blast
qed


text \<open>
  Against claim C2 as stated: when the query for the minimum fails and the maximum is
  21.5, the digest is not the fallback sentence but a sentence that prints 0.0.
\<close>

theorem one_failed_query_counterexample:
  "weatherStats (example_graphite (one_point 21.5) (Inl ''timeout''))
   = Inr (''Weather: Outside it got up to a scorching 21.5'' @ [CHR 0xC2, CHR 0xB0]
          @ ''C and went down to a frosty 0.0'' @ [CHR 0xC2, CHR 0xB0]
          @ ''C in the last 24 hours.'')"
  by (simp add: weatherStats_def getLast24_def example_graphite_def query_target_def
      one_point_def highTemperatures_def lowTemperatures_def digest_message_def
      fmt_f_def round_half_even_def dec_digits.simps)

text \<open>
  Claim C2, as the code has it. When both queries fail the digest is exactly the
  fallback sentence. When each query returns a first data point and the two values are
  not both 0, the digest is the one sentence made of the class of the maximum in the
  high table and the class of the minimum in the low table, each value printed with one
  decimal: a sign, the digits of a whole number, a point and one digit, at most 0.05
  away from the value. When one query fails and the other returns a first data point
  other than 0, the digest is that sentence too, with 0 for the failed query.
\<close>

theorem digest_fallback_or_sentence:
  "(gr ''-24h'' ''now'' (query_target ''garden.temp'' ''max'') = Inl e1
      \<and> gr ''-24h'' ''now'' (query_target ''garden.temp'' ''min'') = Inl e2
      \<longrightarrow> weatherStats gr = Inr no_data_message)
   \<and> (gr ''-24h'' ''now'' (query_target ''garden.temp'' ''max'') = Inr (dmax # smax)
      \<and> Datapoints dmax = pmax # qmax
      \<and> gr ''-24h'' ''now'' (query_target ''garden.temp'' ''min'') = Inr (dmin # smin)
      \<and> Datapoints dmin = pmin # qmin
      \<and> \<not> (Value pmin = 0 \<and> Value pmax = 0)
      \<longrightarrow> weatherStats gr =
            Inr (digest_message (getTempDesc (Value pmax) highTemperatures) (Value pmax)
                   (getTempDesc (Value pmin) lowTemperatures) (Value pmin)))
   \<and> (gr ''-24h'' ''now'' (query_target ''garden.temp'' ''max'') = Inl e1
      \<and> gr ''-24h'' ''now'' (query_target ''garden.temp'' ''min'') = Inr (dmin # smin)
      \<and> Datapoints dmin = pmin # qmin
      \<and> Value pmin \<noteq> 0
      \<longrightarrow> weatherStats gr =
            Inr (digest_message (getTempDesc 0 highTemperatures) 0
                   (getTempDesc (Value pmin) lowTemperatures) (Value pmin)))
   \<and> (gr ''-24h'' ''now'' (query_target ''garden.temp'' ''max'') = Inr (dmax # smax)
      \<and> Datapoints dmax = pmax # qmax
      \<and> gr ''-24h'' ''now'' (query_target ''garden.temp'' ''min'') = Inl e2
      \<and> Value pmax \<noteq> 0
      \<longrightarrow> weatherStats gr =
            Inr (digest_message (getTempDesc (Value pmax) highTemperatures) (Value pmax)
                   (getTempDesc 0 lowTemperatures) 0))
   \<and> (\<exists>n d. d < 10
         \<and> fmt_f 1 x = (if x < 0 then ''-'' else '''') @ dec_digits n @ ''.'' @ [''0123456789'' ! d]
         \<and> \<bar>\<bar>x\<bar> - (real n + real d / 10)\<bar> \<le> 1 / 20)"
proof -
  have both_fail: "weatherStats gr = Inr no_data_message"
    if "gr ''-24h'' ''now'' (query_target ''garden.temp'' ''max'') = Inl e1"
      and "gr ''-24h'' ''now'' (query_target ''garden.temp'' ''min'') = Inl e2"
    using that by (simp add: weatherStats_def getLast24_def)
  have both_data: "weatherStats gr =
            Inr (digest_message (getTempDesc (Value pmax) highTemperatures) (Value pmax)
                   (getTempDesc (Value pmin) lowTemperatures) (Value pmin))"
    if "gr ''-24h'' ''now'' (query_target ''garden.temp'' ''max'') = Inr (dmax # smax)"
      and "Datapoints dmax = pmax # qmax"
      and "gr ''-24h'' ''now'' (query_target ''garden.temp'' ''min'') = Inr (dmin # smin)"
      and "Datapoints dmin = pmin # qmin"
      and "\<not> (Value pmin = 0 \<and> Value pmax = 0)"
    using that by (auto simp: weatherStats_def getLast24_def)
  have max_fails: "weatherStats gr =
            Inr (digest_message (getTempDesc 0 highTemperatures) 0
                   (getTempDesc (Value pmin) lowTemperatures) (Value pmin))"
    if "gr ''-24h'' ''now'' (query_target ''garden.temp'' ''max'') = Inl e1"
      and "gr ''-24h'' ''now'' (query_target ''garden.temp'' ''min'') = Inr (dmin # smin)"
      and "Datapoints dmin = pmin # qmin"
      and "Value pmin \<noteq> 0"
    using that by (simp add: weatherStats_def getLast24_def)
  have min_fails: "weatherStats gr =
            Inr (digest_message (getTempDesc (Value pmax) highTemperatures) (Value pmax)
                   (getTempDesc 0 lowTemperatures) 0)"
    if "gr ''-24h'' ''now'' (query_target ''garden.temp'' ''max'') = Inr (dmax # smax)"
      and "Datapoints dmax = pmax # qmax"
      and "gr ''-24h'' ''now'' (query_target ''garden.temp'' ''min'') = Inl e2"
      and "Value pmax \<noteq> 0"
    using that by (simp add: weatherStats_def getLast24_def)
  from both_fail both_data max_fails min_fails fmt_f_one_decimal [of x]
  show ?thesis by blast
qed

theorem digest_fallback_or_sentence_witness:
  "example_graphite (Inl ''timeout'') (Inl ''timeout'') ''-24h'' ''now''
      (query_target ''garden.temp'' ''max'') = Inl ''timeout''
   \<and> example_graphite (Inl ''timeout'') (Inl ''timeout'') ''-24h'' ''now''
      (query_target ''garden.temp'' ''min'') = Inl ''timeout''
   \<and> weatherStats (example_graphite (Inl ''timeout'') (Inl ''timeout'')) = Inr no_data_message
   \<and> example_graphite (one_point 21.5) (one_point (-3.5)) ''-24h'' ''now''
      (query_target ''garden.temp'' ''max'')
      = Inr [\<lparr>Target = ''garden.temp'', Datapoints = [\<lparr>At = 0, Value = 21.5\<rparr>]\<rparr>]
   \<and> example_graphite (one_point 21.5) (one_point (-3.5)) ''-24h'' ''now''
      (query_target ''garden.temp'' ''min'')
      = Inr [\<lparr>Target = ''garden.temp'', Datapoints = [\<lparr>At = 0, Value = -3.5\<rparr>]\<rparr>]
   \<and> weatherStats (example_graphite (one_point 21.5) (one_point (-3.5)))
      = Inr (''Weather: Outside it got up to a scorching 21.5'' @ [CHR 0xC2, CHR 0xB0]
             @ ''C and went down to a rather cold -3.5'' @ [CHR 0xC2, CHR 0xB0]
             @ ''C in the last 24 hours.'')
   \<and> example_graphite (Inl ''timeout'') (one_point 12.25) ''-24h'' ''now''
      (query_target ''garden.temp'' ''max'') = Inl ''timeout''
   \<and> example_graphite (Inl ''timeout'') (one_point 12.25) ''-24h'' ''now''
      (query_target ''garden.temp'' ''min'')
      = Inr [\<lparr>Target = ''garden.temp'', Datapoints = [\<lparr>At = 0, Value = 12.25\<rparr>]\<rparr>]
   \<and> weatherStats (example_graphite (Inl ''timeout'') (one_point 12.25))
      = Inr (''Weather: Outside it got up to a very cold 0.0'' @ [CHR 0xC2, CHR 0xB0]
             @ ''C and went down to a hot 12.2'' @ [CHR 0xC2, CHR 0xB0]
             @ ''C in the last 24 hours.'')
   \<and> example_graphite (one_point 36) (Inl ''timeout'') ''-24h'' ''now''
      (query_target ''garden.temp'' ''max'')
      = Inr [\<lparr>Target = ''garden.temp'', Datapoints = [\<lparr>At = 0, Value = 36\<rparr>]\<rparr>]
   \<and> example_graphite (one_point 36) (Inl ''timeout'') ''-24h'' ''now''
      (query_target ''garden.temp'' ''min'') = Inl ''timeout''
   \<and> weatherStats (example_graphite (one_point 36) (Inl ''timeout''))
      = Inr (''Weather: Outside it got up to  36.0'' @ [CHR 0xC2, CHR 0xB0]
             @ ''C and went down to a frosty 0.0'' @ [CHR 0xC2, CHR 0xB0]
             @ ''C in the last 24 hours.'')"
proof -
  let ?fail = "example_graphite (Inl ''timeout'') (Inl ''timeout'')"
  let ?data = "example_graphite (one_point 21.5) (one_point (-3.5))"
  let ?nomax = "example_graphite (Inl ''timeout'') (one_point 12.25)"
  let ?nomin = "example_graphite (one_point 36) (Inl ''timeout'')"
  let ?pmax = "\<lparr>At = 0, Value = 21.5\<rparr>"
  let ?pmin = "\<lparr>At = 0, Value = -3.5\<rparr>"
  let ?p12 = "\<lparr>At = 0, Value = 12.25\<rparr>"
  let ?p36 = "\<lparr>At = 0, Value = 36\<rparr>"
  let ?dmax = "\<lparr>Target = ''garden.temp'', Datapoints = [?pmax]\<rparr>"
  let ?dmin = "\<lparr>Target = ''garden.temp'', Datapoints = [?pmin]\<rparr>"
  let ?d12 = "\<lparr>Target = ''garden.temp'', Datapoints = [?p12]\<rparr>"
  let ?d36 = "\<lparr>Target = ''garden.temp'', Datapoints = [?p36]\<rparr>"
  note evaluate = highTemperatures_def lowTemperatures_def digest_message_def
    fmt_f_def round_half_even_def dec_digits.simps
  have f1: "?fail ''-24h'' ''now'' (query_target ''garden.temp'' ''max'') = Inl ''timeout''"
    by (rule example_graphite_max)
  have f2: "?fail ''-24h'' ''now'' (query_target ''garden.temp'' ''min'') = Inl ''timeout''"
    by (rule example_graphite_min)
  have d1: "?data ''-24h'' ''now'' (query_target ''garden.temp'' ''max'') = Inr [?dmax]"
    by (simp add: example_graphite_max one_point_def)
  have d2: "?data ''-24h'' ''now'' (query_target ''garden.temp'' ''min'') = Inr [?dmin]"
    by (simp add: example_graphite_min one_point_def)
  have a1: "?nomax ''-24h'' ''now'' (query_target ''garden.temp'' ''max'') = Inl ''timeout''"
    by (rule example_graphite_max)
  have a2: "?nomax ''-24h'' ''now'' (query_target ''garden.temp'' ''min'') = Inr [?d12]"
    by (simp add: example_graphite_min one_point_def)
  have b1: "?nomin ''-24h'' ''now'' (query_target ''garden.temp'' ''max'') = Inr [?d36]"
    by (simp add: example_graphite_max one_point_def)
  have b2: "?nomin ''-24h'' ''now'' (query_target ''garden.temp'' ''min'') = Inl ''timeout''"
    by (rule example_graphite_min)
  from f1 f2 digest_fallback_or_sentence [of ?fail "''timeout''" "''timeout''"]
  have fallback: "weatherStats ?fail = Inr no_data_message"
    by blast
  have "Datapoints ?dmax = [?pmax]" and "Datapoints ?dmin = [?pmin]"
    and "\<not> (Value ?pmin = 0 \<and> Value ?pmax = 0)"
    by simp_all
  with d1 d2 digest_fallback_or_sentence [of ?data _ _ ?dmax "[]" ?pmax "[]" ?dmin "[]" ?pmin "[]"]
  have "weatherStats ?data =
      Inr (digest_message (getTempDesc 21.5 highTemperatures) 21.5
             (getTempDesc (-3.5) lowTemperatures) (-3.5))"
    by simp
  then have sentence: "weatherStats ?data
      = Inr (''Weather: Outside it got up to a scorching 21.5'' @ [CHR 0xC2, CHR 0xB0]
             @ ''C and went down to a rather cold -3.5'' @ [CHR 0xC2, CHR 0xB0]
             @ ''C in the last 24 hours.'')"
    by (simp add: evaluate)
  have "Datapoints ?d12 = [?p12]" and "Value ?p12 \<noteq> 0"
    by simp_all
  with a1 a2 digest_fallback_or_sentence [of ?nomax "''timeout''" _ _ _ _ _ ?d12 "[]" ?p12 "[]"]
  have "weatherStats ?nomax =
      Inr (digest_message (getTempDesc 0 highTemperatures) 0
             (getTempDesc 12.25 lowTemperatures) 12.25)"
    by simp
  then have no_max: "weatherStats ?nomax
      = Inr (''Weather: Outside it got up to a very cold 0.0'' @ [CHR 0xC2, CHR 0xB0]
             @ ''C and went down to a hot 12.2'' @ [CHR 0xC2, CHR 0xB0]
             @ ''C in the last 24 hours.'')"
    by (simp add: evaluate)
  have "Datapoints ?d36 = [?p36]" and "Value ?p36 \<noteq> 0"
    by simp_all
  with b1 b2 digest_fallback_or_sentence [of ?nomin _ "''timeout''" ?d36 "[]" ?p36 "[]"]
  have "weatherStats ?nomin =
      Inr (digest_message (getTempDesc 36 highTemperatures) 36
             (getTempDesc 0 lowTemperatures) 0)"
    by simp
  then have no_min: "weatherStats ?nomin
      = Inr (''Weather: Outside it got up to  36.0'' @ [CHR 0xC2, CHR 0xB0]
             @ ''C and went down to a frosty 0.0'' @ [CHR 0xC2, CHR 0xB0]
             @ ''C in the last 24 hours.'')"
    by (simp add: evaluate)
  from f1 f2 fallback d1 d2 sentence a1 a2 no_max b1 b2 no_min
  show ?thesis by (simp only: simp_thms)
qed

text \<open>
  Against claim C10 as stated: a query that succeeds with an empty answer (no series,
  or a series without points) is not reported as 0.0; the index panics.
\<close>

theorem empty_answer_not_zero_counterexample:
  "getLast24 (example_graphite (Inr []) (one_point 0)) ''garden.temp'' ''max''
     = Inl IndexOutOfRange
   \<and> getLast24 (example_graphite (Inr [\<lparr>Target = ''garden.temp'', Datapoints = []\<rparr>]) (one_point 0))
        ''garden.temp'' ''max''
     = Inl IndexOutOfRange
   \<and> weatherStats (example_graphite (Inr []) (one_point 0)) = Inl IndexOutOfRange"
  by (simp add: weatherStats_def getLast24_def example_graphite_def)

text \<open>
  Claim C10, as the code has it. \<^verbatim>\<open>getLast24\<close> reports a failed query as 0.0, and the
  digest is the fallback sentence iff the two values it got are both exactly 0.0. So a
  failed query cannot be told from a first data point of 0.0: a day whose minimum and
  maximum are both 0.0 gives the fallback sentence, and one failed query beside a value
  other than zero gives a sentence that prints 0.0.
\<close>

theorem fallback_iff_both_zero:
  "(gr ''-24h'' ''now'' (query_target sensor cf) = Inl err \<longrightarrow> getLast24 gr sensor cf = Inr 0)
   \<and> (getLast24 gr ''garden.temp'' ''max'' = Inr highest
        \<and> getLast24 gr ''garden.temp'' ''min'' = Inr lowest
      \<longrightarrow> (weatherStats gr = Inr no_data_message \<longleftrightarrow> lowest = 0 \<and> highest = 0))
   \<and> weatherStats (example_graphite (Inl err) mn) = weatherStats (example_graphite (one_point 0) mn)
   \<and> weatherStats (example_graphite mx (Inl err)) = weatherStats (example_graphite mx (one_point 0))
   \<and> weatherStats (example_graphite (one_point 0) (one_point 0)) = Inr no_data_message
   \<and> weatherStats (example_graphite (Inl ''timeout'') (one_point (-3.5)))
      = Inr (''Weather: Outside it got up to a very cold 0.0'' @ [CHR 0xC2, CHR 0xB0]
             @ ''C and went down to a rather cold -3.5'' @ [CHR 0xC2, CHR 0xB0]
             @ ''C in the last 24 hours.'')"
proof -
  have failed: "gr ''-24h'' ''now'' (query_target sensor cf) = Inl err \<longrightarrow> getLast24 gr sensor cf = Inr 0"
    by (simp add: getLast24_def)
  have iff: "weatherStats gr = Inr no_data_message \<longleftrightarrow> lowest = 0 \<and> highest = 0"
    if "getLast24 gr ''garden.temp'' ''max'' = Inr highest"
      and "getLast24 gr ''garden.temp'' ''min'' = Inr lowest"
    using digest_is_not_fallback by (simp add: weatherStats_values [OF that])
  have same_max: "weatherStats (example_graphite (Inl err) mn)
      = weatherStats (example_graphite (one_point 0) mn)"
    by (simp add: weatherStats_def getLast24_def example_graphite_max example_graphite_min
        one_point_def)
  have same_min: "weatherStats (example_graphite mx (Inl err))
      = weatherStats (example_graphite mx (one_point 0))"
  proof -
    have "getLast24 (example_graphite mx (Inl err)) ''garden.temp'' ''max''
        = getLast24 (example_graphite mx (one_point 0)) ''garden.temp'' ''max''"
      by (simp add: getLast24_def example_graphite_max)
    moreover have "getLast24 (example_graphite mx (Inl err)) ''garden.temp'' ''min''
        = getLast24 (example_graphite mx (one_point 0)) ''garden.temp'' ''min''"
      by (simp add: getLast24_def example_graphite_min one_point_def)
    ultimately show ?thesis by (simp only: weatherStats_def)
  qed
  have zero_day: "weatherStats (example_graphite (one_point 0) (one_point 0)) = Inr no_data_message"
    by (simp add: weatherStats_def getLast24_def example_graphite_max example_graphite_min
        one_point_def)
  have one_failed: "weatherStats (example_graphite (Inl ''timeout'') (one_point (-3.5)))
      = Inr (''Weather: Outside it got up to a very cold 0.0'' @ [CHR 0xC2, CHR 0xB0]
             @ ''C and went down to a rather cold -3.5'' @ [CHR 0xC2, CHR 0xB0]
             @ ''C in the last 24 hours.'')"
    by (simp add: weatherStats_def getLast24_def example_graphite_max example_graphite_min
        one_point_def highTemperatures_def lowTemperatures_def digest_message_def
        fmt_f_def round_half_even_def dec_digits.simps)
  from failed iff same_max same_min zero_day one_failed show ?thesis by blast
qed

theorem fallback_iff_both_zero_witness:
  "example_graphite (Inl ''timeout'') (one_point 0) ''-24h'' ''now''
      (query_target ''garden.temp'' ''max'') = Inl ''timeout''
   \<and> getLast24 (example_graphite (Inl ''timeout'') (one_point 0)) ''garden.temp'' ''max'' = Inr 0
   \<and> getLast24 (example_graphite (Inl ''timeout'') (one_point 0)) ''garden.temp'' ''min'' = Inr 0
   \<and> weatherStats (example_graphite (Inl ''timeout'') (one_point 0)) = Inr no_data_message"
proof -
  let ?gr = "example_graphite (Inl ''timeout'') (one_point 0)"
  have q: "?gr ''-24h'' ''now'' (query_target ''garden.temp'' ''max'') = Inl ''timeout''"
    by (rule example_graphite_max)
  note inst = fallback_iff_both_zero [of ?gr "''garden.temp''" "''max''" "''timeout''" 0 0]
  from q inst have hi: "getLast24 ?gr ''garden.temp'' ''max'' = Inr 0"
    by blast
  have lo: "getLast24 ?gr ''garden.temp'' ''min'' = Inr 0"
    by (simp add: getLast24_def example_graphite_min one_point_def)
  from hi lo inst have "weatherStats ?gr = Inr no_data_message"
    by blast
  with q hi lo show ?thesis by (simp only: simp_thms)
qed

subsection \<open>The loop on a bad input\<close>

text \<open>
  Claim C1 does not hold of the code. An event of the rain device without
  \<^verbatim>\<open>all_total\<close>, an event of the temperature device whose \<^verbatim>\<open>temp\<close> is a string, an
  event of the wind device without \<^verbatim>\<open>speed\<close>, and a tick whose query succeeds with no
  series each panic; the panic ends \<^verbatim>\<open>Run\<close>, and the well-formed event that follows is
  never handled, although alone it is handled.
\<close>

theorem bad_input_ends_run:
  "run example_config
     [Event \<lparr>deviceName = ''rain.garden'', Fields = [''day_total'' \<mapsto> FFloat 3]\<rparr>,
      Event (rain_reading example_config 12.5 3)] init_state
     = Inl InterfaceConversion
   \<and> run example_config
     [Event \<lparr>deviceName = ''temp.garden'', Fields = [''temp'' \<mapsto> FString ''12.5'']\<rparr>,
      Event (rain_reading example_config 12.5 3)] init_state
     = Inl InterfaceConversion
   \<and> run example_config
     [Event \<lparr>deviceName = ''wind.garden'', Fields = Map.empty\<rparr>,
      Event (rain_reading example_config 12.5 3)] init_state
     = Inl InterfaceConversion
   \<and> run example_config
     [Tick (example_graphite (Inr []) (Inr [])),
      Event (rain_reading example_config 12.5 3)] init_state
     = Inl IndexOutOfRange
   \<and> run example_config [Event (rain_reading example_config 12.5 3)] init_state
     = Inr (init_state\<lparr>lastRainTotal := 12.5\<rparr>, [])"
  by (simp add: checkEvent_def tick_def weatherStats_def getLast24_def example_graphite_def
      example_config_def rain_reading_def assert_float64_def init_state_def)

subsection \<open>The wind average in exact arithmetic\<close>

text \<open>
  The model computes the update \<^verbatim>\<open>avgWind*39/40 + speed*1/40\<close> in the reals. There a
  constant speed pulls the average towards itself by the factor 39/40 at every
  Reading: the average stays between its first value and the speed and tends to the
  speed. The code rounds each of the four operations of the update to a \<^verbatim>\<open>float64\<close>;
  these facts are about the exact update only, and claim C8, which is about the
  rounded one, is not stated.
\<close>

lemma checkEvent_wind_reading:
  assumes "Wind cfg \<noteq> Rain cfg" and "Wind cfg \<noteq> Temp cfg"
  shows "checkEvent cfg (wind_reading cfg speed) s =
    Inr (s\<lparr>avgWind := avgWind s * 39 / 40 + speed * 1 / 40\<rparr>,
         if avgWind s * 39 / 40 + speed * 1 / 40 > Windy cfg
         then [wind_alert (avgWind s * 39 / 40 + speed * 1 / 40)] else [])"
  using assms by (simp add: checkEvent_def wind_reading_def assert_float64_def Let_def)

lemma run_constant_wind:
  assumes "Wind cfg \<noteq> Rain cfg" and "Wind cfg \<noteq> Temp cfg"
  shows "\<exists>s' as. run cfg (replicate n (Event (wind_reading cfg speed))) s = Inr (s', as)
           \<and> avgWind s' = speed + (39 / 40) ^ n * (avgWind s - speed)"
proof (induction n arbitrary: s)
  case 0
  show ?case by simp
next
  case (Suc n)
  let ?s1 = "s\<lparr>avgWind := avgWind s * 39 / 40 + speed * 1 / 40\<rparr>"
  from Suc.IH [of ?s1] obtain s' bs
    where rest: "run cfg (replicate n (Event (wind_reading cfg speed))) ?s1 = Inr (s', bs)"
      and avg: "avgWind s' = speed + (39 / 40) ^ n * (avgWind ?s1 - speed)"
    by blast
  have "avgWind ?s1 - speed = 39 / 40 * (avgWind s - speed)"
    by (simp add: algebra_simps)
  with avg have "avgWind s' = speed + (39 / 40) ^ Suc n * (avgWind s - speed)"
    by simp
  with rest show ?case
    by (simp add: checkEvent_wind_reading [OF assms])
qed

lemma avg_after_closed_form:
  assumes "Wind cfg \<noteq> Rain cfg" and "Wind cfg \<noteq> Temp cfg"
  shows "avg_after cfg speed s n = speed + (39 / 40) ^ n * (avgWind s - speed)"
proof -
  from run_constant_wind [OF assms, of n speed s] obtain s' as
    where "run cfg (replicate n (Event (wind_reading cfg speed))) s = Inr (s', as)"
      and "avgWind s' = speed + (39 / 40) ^ n * (avgWind s - speed)"
    by blast
  then show ?thesis by (simp add: avg_after_def)
qed

lemma avg_after_step:
  assumes "Wind cfg \<noteq> Rain cfg" and "Wind cfg \<noteq> Temp cfg"
  shows "avg_after cfg speed s (Suc n) = avg_after cfg speed s n * 39 / 40 + speed * 1 / 40"
  by (simp add: avg_after_closed_form [OF assms] field_simps)

lemma avg_after_distance:
  assumes "Wind cfg \<noteq> Rain cfg" and "Wind cfg \<noteq> Temp cfg"
  shows "\<bar>avg_after cfg speed s (Suc n) - speed\<bar> = 39 / 40 * \<bar>avg_after cfg speed s n - speed\<bar>"
  by (simp add: avg_after_closed_form [OF assms] abs_mult)

lemma avg_after_bounds:
  assumes "Wind cfg \<noteq> Rain cfg" and "Wind cfg \<noteq> Temp cfg"
  shows "min (avgWind s) speed \<le> avg_after cfg speed s n"
    and "avg_after cfg speed s n \<le> max (avgWind s) speed"
proof -
  let ?c = "(39 / 40 :: real) ^ n"
  have c: "0 \<le> ?c" "?c \<le> 1"
    by (simp_all add: power_le_one)
  have eq: "avg_after cfg speed s n = ?c * avgWind s + (1 - ?c) * speed"
    by (simp add: avg_after_closed_form [OF assms] algebra_simps)
  have lo: "?c * min (avgWind s) speed + (1 - ?c) * min (avgWind s) speed
      \<le> ?c * avgWind s + (1 - ?c) * speed"
    using c by (intro add_mono mult_left_mono) simp_all
  have hi: "?c * avgWind s + (1 - ?c) * speed
      \<le> ?c * max (avgWind s) speed + (1 - ?c) * max (avgWind s) speed"
    using c by (intro add_mono mult_left_mono) simp_all
  from lo show "min (avgWind s) speed \<le> avg_after cfg speed s n"
    by (simp add: eq algebra_simps)
  from hi show "avg_after cfg speed s n \<le> max (avgWind s) speed"
    by (simp add: eq algebra_simps)
qed

lemma avg_after_converges:
  assumes "Wind cfg \<noteq> Rain cfg" and "Wind cfg \<noteq> Temp cfg"
  shows "(\<lambda>n. avg_after cfg speed s n) \<longlonglongrightarrow> speed"
proof -
  have lim: "(\<lambda>n. (39 / 40 :: real) ^ n) \<longlonglongrightarrow> 0"
    by (rule LIMSEQ_realpow_zero) simp_all
  have "(\<lambda>n. speed + (39 / 40) ^ n * (avgWind s - speed))
      \<longlonglongrightarrow> speed + 0 * (avgWind s - speed)"
    by (intro tendsto_add tendsto_const tendsto_mult lim)
  then show ?thesis
    by (simp add: avg_after_closed_form [OF assms])
qed

end
